theory Spec2Isabelle
  imports Complex_Main
begin

section \<open>The exchange-rate pipeline of server.js\<close>

text \<open>
  The development embeds \<^verbatim>\<open>fetchExchangeRate\<close> (server.js, lines 217 to 271), the
  provider list \<^verbatim>\<open>EXCHANGE_RATE_APIS\<close> (lines 185 to 201), the in-memory cache
  \<^verbatim>\<open>exchangeRateCache\<close> (lines 179 to 182) and the handler of
  \<^verbatim>\<open>GET /api/exchange-rate\<close> (lines 274 to 322).

  What the environment supplies is an argument of the model:
  \<^item> \<open>now\<close> is the value \<^verbatim>\<open>Date.now()\<close> returns, an integer number of milliseconds;
  \<^item> \<open>net\<close> maps a request URL to the way the promise around \<^verbatim>\<open>https.get\<close> settles:
    rejected (a transport error, or a body \<^verbatim>\<open>JSON.parse\<close> refuses), or resolved with the
    parsed body. Every request is taken to settle.
  Every function returns, next to its value, the cache after the call and the list of
  URLs it requested, in the order of the requests.
\<close>

subsection \<open>JavaScript values\<close>

text \<open>
  A JavaScript number is a finite value, an infinity or NaN. A finite value is kept as
  the rational it denotes (a double denotes one); \<open>-0\<close> is \<open>0\<close>.
\<close>

datatype jsnum = Fin rat | PosInf | NegInf | NaN

datatype jsval =
    JUndefined
  | JNull
  | JBool bool
  | JNum jsnum
  | JStr string
  | JArr "jsval list"
  | JObj "(string \<times> jsval) list"

datatype exn = NetworkError | ParseFailure | TypeError | NoRateAvailable

text \<open>Truthiness of a number, and the comparison \<^verbatim>\<open>n > 0\<close>.\<close>

fun num_truthy :: "jsnum \<Rightarrow> bool" where
  "num_truthy (Fin x) = (x \<noteq> 0)"
| "num_truthy PosInf = True"
| "num_truthy NegInf = True"
| "num_truthy NaN = False"

fun num_gt_zero :: "jsnum \<Rightarrow> bool" where
  "num_gt_zero (Fin x) = (0 < x)"
| "num_gt_zero PosInf = True"
| "num_gt_zero NegInf = False"
| "num_gt_zero NaN = False"

text \<open>
  \<^verbatim>\<open>parseFloat(n.toFixed(4))\<close>. \<^verbatim>\<open>toFixed(4)\<close> prints an infinity or NaN by name; it
  prints a value of magnitude at least \<open>10^21\<close> as \<^verbatim>\<open>String\<close> does, digits that read back
  as the same number; otherwise it prints \<open>k / 10^4\<close> for the integer \<open>k\<close> nearest to
  \<open>10^4\<close> times the magnitude, the larger one of two equally near. \<^verbatim>\<open>parseFloat\<close> reads
  the digits back; the model keeps the decimal value they denote.
\<close>

definition fixed4 :: "rat \<Rightarrow> rat" where
  "fixed4 a = (if 10 ^ 21 \<le> a then a else of_int \<lfloor>a * 10 ^ 4 + 1 / 2\<rfloor> / 10 ^ 4)"

fun parseFloat_toFixed4 :: "jsnum \<Rightarrow> jsnum" where
  "parseFloat_toFixed4 (Fin x) = (if x < 0 then Fin (- fixed4 (- x)) else Fin (fixed4 x))"
| "parseFloat_toFixed4 PosInf = PosInf"
| "parseFloat_toFixed4 NegInf = NegInf"
| "parseFloat_toFixed4 NaN = NaN"

text \<open>
  Property access \<^verbatim>\<open>v[k]\<close> and optional access \<^verbatim>\<open>v?.[k]\<close>, for a key \<open>k\<close> that names
  no inherited property (\<^verbatim>\<open>rates\<close> and the currency codes name none): an object
  answers with its own property or \<^verbatim>\<open>undefined\<close>, \<^verbatim>\<open>null\<close> and \<^verbatim>\<open>undefined\<close> raise a
  TypeError under plain access, every other value answers \<^verbatim>\<open>undefined\<close>.
\<close>

fun get_prop :: "jsval \<Rightarrow> string \<Rightarrow> exn + jsval" where
  "get_prop JUndefined k = Inl TypeError"
| "get_prop JNull k = Inl TypeError"
| "get_prop (JObj kvs) k = Inr (case map_of kvs k of None \<Rightarrow> JUndefined | Some v \<Rightarrow> v)"
| "get_prop v k = Inr JUndefined"

fun get_prop_opt :: "jsval \<Rightarrow> string \<Rightarrow> exn + jsval" where
  "get_prop_opt JUndefined k = Inr JUndefined"
| "get_prop_opt JNull k = Inr JUndefined"
| "get_prop_opt v k = get_prop v k"

subsection \<open>The cache and the providers\<close>

record cache_entry =
  rate :: jsnum
  timestamp :: int
  source :: string

record result = cache_entry +
  fromCache :: bool

text \<open>\<^verbatim>\<open>exchangeRateCache.data\<close> and \<^verbatim>\<open>exchangeRateCache.duration\<close>.\<close>

type_synonym cache_data = "string \<rightharpoonup> cache_entry"

definition duration :: int where
  "duration = 60 * 60 * 1000"

datatype response = Rejected exn | Resolved jsval

record api =
  name :: string
  url :: "string \<Rightarrow> string \<Rightarrow> string"
  parse :: "jsval \<Rightarrow> string \<Rightarrow> exn + jsval"

text \<open>\<^verbatim>\<open>data.rates?.[to]\<close>, the \<^verbatim>\<open>parse\<close> of all three providers.\<close>

definition parse_rates :: "jsval \<Rightarrow> string \<Rightarrow> exn + jsval" where
  "parse_rates data to =
     (case get_prop data ''rates'' of
        Inl e \<Rightarrow> Inl e
      | Inr rates \<Rightarrow> get_prop_opt rates to)"

definition EXCHANGE_RATE_APIS :: "api list" where
  "EXCHANGE_RATE_APIS =
     [ \<lparr> name = ''exchangerate-api.com'',
         url = (\<lambda>from to. ''https://api.exchangerate-api.com/v4/latest/'' @ from),
         parse = parse_rates \<rparr>,
       \<lparr> name = ''open.er-api.com'',
         url = (\<lambda>from to. ''https://open.er-api.com/v6/latest/'' @ from),
         parse = parse_rates \<rparr>,
       \<lparr> name = ''api.frankfurter.app'',
         url = (\<lambda>from to. ''https://api.frankfurter.app/latest?from='' @ from @ ''&to='' @ to),
         parse = parse_rates \<rparr> ]"

subsection \<open>One iteration of the provider loop\<close>

text \<open>
  Lines 248 to 257: the test \<^verbatim>\<open>rate && rate > 0\<close> and the entry built when it holds.
  For a number the test is decided here. \<^verbatim>\<open>undefined\<close>, \<^verbatim>\<open>null\<close> and \<^verbatim>\<open>false\<close> are
  falsy. For \<^verbatim>\<open>true\<close>, a string, an array or an object, the test is false, or its
  evaluation raises a TypeError (an object whose \<^verbatim>\<open>valueOf\<close> and \<^verbatim>\<open>toString\<close> are no
  functions), or it is true and \<^verbatim>\<open>rate.toFixed\<close> is not a function, which raises a
  TypeError as well; the \<^verbatim>\<open>catch\<close> of line 258 takes the exception. No entry is built on
  any of these ways, and \<open>None\<close> stands for them all.
\<close>

fun accept_rate :: "jsval \<Rightarrow> int \<Rightarrow> string \<Rightarrow> cache_entry option" where
  "accept_rate (JNum n) now nm =
     (if num_truthy n \<and> num_gt_zero n
      then Some \<lparr> rate = parseFloat_toFixed4 n, timestamp = now, source = nm \<rparr>
      else None)"
| "accept_rate v now nm = None"

text \<open>
  Lines 247 to 257, what the \<^verbatim>\<open>try\<close> block does once the \<^verbatim>\<open>await\<close> of line 233 has
  settled: \<open>Inl\<close> is an exception raised inside the block (a rejected promise raises at
  the \<^verbatim>\<open>await\<close>), \<open>Inr (Some result)\<close> the entry of line 250, \<open>Inr None\<close> an
  iteration that ends without one.
\<close>

definition after_await :: "api \<Rightarrow> string \<Rightarrow> int \<Rightarrow> response \<Rightarrow> exn + cache_entry option" where
  "after_await a to now resp =
     (case resp of
        Rejected e \<Rightarrow> Inl e
      | Resolved data \<Rightarrow>
          (case parse a data to of
             Inl e \<Rightarrow> Inl e
           | Inr r \<Rightarrow> Inr (accept_rate r now (name a))))"

text \<open>The \<^verbatim>\<open>try\<close> block, lines 232 to 257, with the request of line 234.\<close>

definition try_block :: "api \<Rightarrow> string \<Rightarrow> string \<Rightarrow> int \<Rightarrow> (string \<Rightarrow> response) \<Rightarrow> exn + cache_entry option" where
  "try_block a from to now net = after_await a to now (net (url a from to))"

text \<open>The \<^verbatim>\<open>catch\<close> of line 258 logs the exception and goes on with the next provider.\<close>

definition catch_continue :: "exn + cache_entry option \<Rightarrow> cache_entry option" where
  "catch_continue t = (case t of Inl e \<Rightarrow> None | Inr r \<Rightarrow> r)"

definition attempt :: "api \<Rightarrow> string \<Rightarrow> string \<Rightarrow> int \<Rightarrow> (string \<Rightarrow> response) \<Rightarrow> cache_entry option" where
  "attempt a from to now net = catch_continue (try_block a from to now net)"

text \<open>
  The loop of line 230 over a list of providers: the entry of the first provider that
  yields one, and the URLs requested.
\<close>

fun try_apis :: "api list \<Rightarrow> string \<Rightarrow> string \<Rightarrow> int \<Rightarrow> (string \<Rightarrow> response) \<Rightarrow> cache_entry option \<times> string list" where
  "try_apis [] from to now net = (None, [])"
| "try_apis (a # rest) from to now net =
     (case attempt a from to now net of
        Some r \<Rightarrow> (Some r, [url a from to])
      | None \<Rightarrow>
          (case try_apis rest from to now net of
             (found, reqs) \<Rightarrow> (found, url a from to # reqs)))"

subsection \<open>fetchExchangeRate\<close>

definition cacheKey :: "string \<Rightarrow> string \<Rightarrow> string" where
  "cacheKey from to = from @ ''-'' @ to"

text \<open>\<^verbatim>\<open>{ ...entry, fromCache: b }\<close>.\<close>

definition from_entry :: "cache_entry \<Rightarrow> bool \<Rightarrow> result" where
  "from_entry e b = \<lparr> rate = rate e, timestamp = timestamp e, source = source e, fromCache = b \<rparr>"

text \<open>
  Lines 264 to 270, after the loop has found no rate: the entry read at line 222, flagged,
  or the \<^verbatim>\<open>Error\<close> of line 270, which the specification calls NoRateAvailable.
\<close>

definition fallback :: "cache_entry option \<Rightarrow> exn + result" where
  "fallback cached = (case cached of Some e \<Rightarrow> Inr (from_entry e True) | None \<Rightarrow> Inl NoRateAvailable)"

text \<open>Lines 227 to 270: the loop, the write of line 255, the fallback.\<close>

definition fetch_from_providers ::
  "cache_data \<Rightarrow> int \<Rightarrow> string \<Rightarrow> string \<Rightarrow> (string \<Rightarrow> response) \<Rightarrow> (exn + result) \<times> cache_data \<times> string list" where
  "fetch_from_providers c now from to net =
     (case try_apis EXCHANGE_RATE_APIS from to now net of
        (Some r, reqs) \<Rightarrow> (Inr (from_entry r False), c(cacheKey from to \<mapsto> r), reqs)
      | (None, reqs) \<Rightarrow> (fallback (c (cacheKey from to)), c, reqs))"

definition fetchExchangeRate ::
  "cache_data \<Rightarrow> int \<Rightarrow> string \<Rightarrow> string \<Rightarrow> (string \<Rightarrow> response) \<Rightarrow> (exn + result) \<times> cache_data \<times> string list" where
  "fetchExchangeRate c now from to net =
     (case c (cacheKey from to) of
        Some cached \<Rightarrow>
          if now - timestamp cached < duration
          then (Inr (from_entry cached False), c, [])
          else fetch_from_providers c now from to net
      | None \<Rightarrow> fetch_from_providers c now from to net)"

subsection \<open>The handler of GET /api/exchange-rate\<close>

text \<open>
  A query parameter is a string or is absent; the timestamp of the answer is kept as the
  instant it prints. The identity answer of line 290 reads the clock once, as
  \<^verbatim>\<open>fetchExchangeRate\<close> does on the other path.
\<close>

definition supportedCurrencies :: "string list" where
  "supportedCurrencies = [''USD'', ''CNY'', ''EUR'', ''GBP'', ''JPY'', ''KRW'']"

record rate_data = result +
  base :: string
  target :: string

datatype http_response = Status400 | Status200 rate_data | Status500 exn

definition query_default :: "string option \<Rightarrow> string \<Rightarrow> string" where
  "query_default q d = (case q of None \<Rightarrow> d | Some s \<Rightarrow> s)"

definition exchange_rate_handler ::
  "cache_data \<Rightarrow> int \<Rightarrow> string option \<Rightarrow> string option \<Rightarrow> (string \<Rightarrow> response) \<Rightarrow> http_response \<times> cache_data \<times> string list" where
  "exchange_rate_handler c now qfrom qto net =
     (let from = query_default qfrom ''USD''; to = query_default qto ''CNY'' in
      if \<not> List.member supportedCurrencies from \<or> \<not> List.member supportedCurrencies to
      then (Status400, c, [])
      else if from = to
      then (Status200 \<lparr> rate = Fin 1, timestamp = now, source = ''direct'', fromCache = False,
                        base = from, target = to \<rparr>, c, [])
      else
        (case fetchExchangeRate c now from to net of
           (Inr r, c', reqs) \<Rightarrow>
             (Status200 \<lparr> rate = rate r, timestamp = timestamp r, source = source r,
                          fromCache = fromCache r, base = from, target = to \<rparr>, c', reqs)
         | (Inl e, c', reqs) \<Rightarrow> (Status500 e, c', reqs)))"

subsection \<open>Calls that overlap\<close>

text \<open>
  \<^verbatim>\<open>fetchExchangeRate\<close> is an \<^verbatim>\<open>async\<close> function: it runs up to the \<^verbatim>\<open>await\<close> of line
  233 and is suspended there until the request settles, and other calls run meanwhile. A
  suspended call keeps its locals: \<^verbatim>\<open>from\<close>, \<^verbatim>\<open>to\<close>, \<^verbatim>\<open>now\<close> and \<^verbatim>\<open>cached\<close>, read at
  lines 219 and 222, the provider it waits for and the providers left.
\<close>

record suspended =
  call_from :: string
  call_to :: string
  call_now :: int
  call_cached :: "cache_entry option"
  call_api :: api
  call_rest :: "api list"

datatype call_state = Awaiting suspended | Settled "exn + result"

text \<open>The head of the loop: request the next provider, or leave the loop.\<close>

definition loop_head :: "string \<Rightarrow> string \<Rightarrow> int \<Rightarrow> cache_entry option \<Rightarrow> api list \<Rightarrow> call_state" where
  "loop_head from to now cached apis =
     (case apis of
        [] \<Rightarrow> Settled (fallback cached)
      | a # rest \<Rightarrow>
          Awaiting \<lparr> call_from = from, call_to = to, call_now = now, call_cached = cached,
                     call_api = a, call_rest = rest \<rparr>)"

text \<open>From the call to the first \<^verbatim>\<open>await\<close>, or to the return of line 224.\<close>

definition fetch_start :: "cache_data \<Rightarrow> int \<Rightarrow> string \<Rightarrow> string \<Rightarrow> call_state" where
  "fetch_start c now from to =
     (case c (cacheKey from to) of
        Some cached \<Rightarrow>
          if now - timestamp cached < duration
          then Settled (Inr (from_entry cached False))
          else loop_head from to now (Some cached) EXCHANGE_RATE_APIS
      | None \<Rightarrow> loop_head from to now None EXCHANGE_RATE_APIS)"

text \<open>From one \<^verbatim>\<open>await\<close> to the next, or to the end of the call; \<open>c\<close> is the cache then.\<close>

definition fetch_resume :: "cache_data \<Rightarrow> suspended \<Rightarrow> response \<Rightarrow> call_state \<times> cache_data" where
  "fetch_resume c s resp =
     (case catch_continue (after_await (call_api s) (call_to s) (call_now s) resp) of
        Some r \<Rightarrow> (Settled (Inr (from_entry r False)), c(cacheKey (call_from s) (call_to s) \<mapsto> r))
      | None \<Rightarrow> (loop_head (call_from s) (call_to s) (call_now s) (call_cached s) (call_rest s), c))"

text \<open>
  The server between events: the cache and the suspended calls, by request number. An
  event is an incoming call, with the clock reading it gets, or the settling of the
  request a suspended call waits for.
\<close>

record server =
  data :: cache_data
  suspended_calls :: "nat \<rightharpoonup> suspended"

datatype event = Call nat int string string | Settle nat response

fun step :: "server \<Rightarrow> event \<Rightarrow> server" where
  "step sv (Call i now from to) =
     (case fetch_start (data sv) now from to of
        Awaiting s \<Rightarrow> sv \<lparr> suspended_calls := (suspended_calls sv)(i \<mapsto> s) \<rparr>
      | Settled r \<Rightarrow> sv)"
| "step sv (Settle i resp) =
     (case suspended_calls sv i of
        None \<Rightarrow> sv
      | Some s \<Rightarrow>
          (case fetch_resume (data sv) s resp of
             (Awaiting s', c') \<Rightarrow> sv \<lparr> data := c', suspended_calls := (suspended_calls sv)(i \<mapsto> s') \<rparr>
           | (Settled r, c') \<Rightarrow> sv \<lparr> data := c', suspended_calls := (suspended_calls sv)(i := None) \<rparr>))"

definition run :: "server \<Rightarrow> event list \<Rightarrow> server" where
  "run sv evs = foldl step sv evs"

definition idle :: server where
  "idle = \<lparr> data = Map.empty, suspended_calls = Map.empty \<rparr>"

text \<open>
  A call that runs alone, from a state of the call to its end: each request settles as
  \<open>net\<close> says before anything else happens.
\<close>

function run_to_end :: "cache_data \<Rightarrow> call_state \<Rightarrow> (string \<Rightarrow> response) \<Rightarrow> (exn + result) \<times> cache_data" where
  "run_to_end c (Settled r) net = (r, c)"
| "run_to_end c (Awaiting s) net =
     (case fetch_resume c s (net (url (call_api s) (call_from s) (call_to s))) of
        (st, c') \<Rightarrow> run_to_end c' st net)"
  by pat_completeness auto
termination
  by (relation "measure (\<lambda>(c, st, net). case st of Settled r \<Rightarrow> 0 | Awaiting s \<Rightarrow> Suc (length (call_rest s)))")
    (auto simp: fetch_resume_def loop_head_def split: option.splits list.splits)

text \<open>Calls made one after another, each to its end before the next begins.\<close>

fun run_calls :: "cache_data \<Rightarrow> (int \<times> string \<times> string \<times> (string \<Rightarrow> response)) list \<Rightarrow> cache_data" where
  "run_calls c [] = c"
| "run_calls c ((now, from, to, net) # calls) =
     run_calls (fst (snd (fetchExchangeRate c now from to net))) calls"

subsection \<open>Notions of the specification\<close>

text \<open>A fresh entry: one is cached for the pair and its age is below \<open>duration\<close>.\<close>

definition fresh :: "cache_data \<Rightarrow> int \<Rightarrow> string \<Rightarrow> string \<Rightarrow> bool" where
  "fresh c now from to =
     (case c (cacheKey from to) of None \<Rightarrow> False | Some e \<Rightarrow> now - timestamp e < duration)"

text \<open>The URLs of a list of providers, in the order of the list.\<close>

definition requests :: "api list \<Rightarrow> string \<Rightarrow> string \<Rightarrow> string list" where
  "requests as from to = map (\<lambda>a. url a from to) as"

subsection \<open>Sample environments\<close>

definition offline :: "string \<Rightarrow> response" where
  "offline u = Rejected NetworkError"

definition rates_body :: "string \<Rightarrow> jsnum \<Rightarrow> jsval" where
  "rates_body to n = JObj [(''rates'', JObj [(to, JNum n)])]"

definition second_provider_up :: "string \<Rightarrow> response" where
  "second_provider_up u =
     (if u = ''https://open.er-api.com/v6/latest/USD''
      then Resolved (rates_body ''CNY'' (Fin (71999 / 10000)))
      else Rejected NetworkError)"

definition infinite_rate :: "string \<Rightarrow> response" where
  "infinite_rate u = Resolved (rates_body ''CNY'' PosInf)"

definition cached_at :: "int \<Rightarrow> cache_data" where
  "cached_at t = [''USD-CNY'' \<mapsto> \<lparr> rate = Fin (72 / 10), timestamp = t, source = ''open.er-api.com'' \<rparr>]"

definition first_provider_up :: "string \<Rightarrow> response" where
  "first_provider_up u =
     (if u = ''https://api.exchangerate-api.com/v4/latest/USD''
      then Resolved (rates_body ''CNY'' (Fin (723456789 / 100000000)))
      else Rejected NetworkError)"

section \<open>Properties\<close>

subsection \<open>One provider, and the loop\<close>

lemma num_gt_zero_iff: "num_gt_zero n \<longleftrightarrow> n = PosInf \<or> (\<exists>x. 0 < x \<and> n = Fin x)"
  by (cases n) auto

lemma num_gt_zero_truthy: "num_gt_zero n \<Longrightarrow> num_truthy n"
  by (cases n) auto

lemma accept_rate_Some:
  "accept_rate v now nm = Some r \<longleftrightarrow>
     (\<exists>n. v = JNum n \<and> num_gt_zero n \<and> r = \<lparr> rate = parseFloat_toFixed4 n, timestamp = now, source = nm \<rparr>)"
  by (cases v) (auto dest: num_gt_zero_truthy)

lemma attempt_Some:
  "attempt a from to now net = Some r \<longleftrightarrow>
     (\<exists>body n. net (url a from to) = Resolved body \<and> parse a body to = Inr (JNum n) \<and> num_gt_zero n \<and>
        r = \<lparr> rate = parseFloat_toFixed4 n, timestamp = now, source = name a \<rparr>)"
  by (auto simp: attempt_def try_block_def after_await_def catch_continue_def accept_rate_Some
      split: response.splits sum.splits)

lemma try_apis_all_fail:
  "\<forall>a\<in>set as. attempt a from to now net = None \<Longrightarrow>
     try_apis as from to now net = (None, requests as from to)"
  by (induction as) (simp_all add: requests_def)

lemma try_apis_first:
  "\<forall>b\<in>set failed. attempt b from to now net = None \<Longrightarrow> attempt a from to now net = Some r \<Longrightarrow>
     try_apis (failed @ a # later) from to now net = (Some r, requests (failed @ [a]) from to)"
  by (induction failed) (simp_all add: requests_def)

lemma try_apis_None:
  "try_apis as from to now net = (None, reqs) \<Longrightarrow>
     (\<forall>a\<in>set as. attempt a from to now net = None) \<and> reqs = requests as from to"
  by (induction as arbitrary: reqs) (auto simp: requests_def split: option.splits prod.splits)

lemma try_apis_Some:
  "try_apis as from to now net = (Some r, reqs) \<Longrightarrow>
     \<exists>failed a later. as = failed @ a # later \<and> (\<forall>b\<in>set failed. attempt b from to now net = None) \<and>
        attempt a from to now net = Some r \<and> reqs = requests (failed @ [a]) from to"
proof (induction as arbitrary: reqs)
  case Nil
  then show ?case by simp
next
  case (Cons x xs)
  show ?case
  proof (cases "attempt x from to now net")
    case (Some r')
    with Cons.prems have "r' = r" "reqs = [url x from to]" by simp_all
    with Some have "x # xs = [] @ x # xs \<and> (\<forall>b\<in>set []. attempt b from to now net = None) \<and>
        attempt x from to now net = Some r \<and> reqs = requests ([] @ [x]) from to"
      by (simp add: requests_def)
    then show ?thesis by blast
  next
    case None
    with Cons.prems obtain reqs' where t: "try_apis xs from to now net = (Some r, reqs')"
      and r: "reqs = url x from to # reqs'"
      by (auto split: prod.splits)
    from Cons.IH [OF t] obtain failed a later where
      d: "xs = failed @ a # later" "\<forall>b\<in>set failed. attempt b from to now net = None"
         "attempt a from to now net = Some r" "reqs' = requests (failed @ [a]) from to"
      by blast
    with None r have "x # xs = (x # failed) @ a # later \<and>
        (\<forall>b\<in>set (x # failed). attempt b from to now net = None) \<and>
        attempt a from to now net = Some r \<and> reqs = requests ((x # failed) @ [a]) from to"
      by (simp add: requests_def)
    then show ?thesis by blast
  qed
qed

subsection \<open>The two ways through fetchExchangeRate\<close>

lemma fetch_fresh:
  "fresh c now from to \<Longrightarrow> c (cacheKey from to) = Some e \<Longrightarrow>
     fetchExchangeRate c now from to net = (Inr (from_entry e False), c, [])"
  by (simp add: fresh_def fetchExchangeRate_def)

lemma fetch_stale:
  "\<not> fresh c now from to \<Longrightarrow>
     fetchExchangeRate c now from to net = fetch_from_providers c now from to net"
  by (simp add: fresh_def fetchExchangeRate_def split: option.splits)

lemma fresh_cached:
  "fresh c now from to \<Longrightarrow> \<exists>e. c (cacheKey from to) = Some e \<and> now - timestamp e < duration"
  by (simp add: fresh_def split: option.splits)

lemmas run_simps =
  fetchExchangeRate_def fetch_from_providers_def fallback_def EXCHANGE_RATE_APIS_def attempt_def
  try_block_def after_await_def catch_continue_def parse_rates_def cacheKey_def from_entry_def
  duration_def

lemma fixed4_71999: "fixed4 (71999 / 10000) = 71999 / 10000"
  by code_simp

subsection \<open>Which rates a provider iteration accepts\<close>

text \<open>
  Claim C1, as the specification has it: a provider's result is accepted, and written to
  the cache, only if the extracted rate is a finite number above zero. It fails for a body
  whose rate is \<^verbatim>\<open>Infinity\<close>, which \<^verbatim>\<open>JSON.parse\<close> yields for a literal such as
  \<^verbatim>\<open>1e999\<close>: the test of line 248 holds, \<^verbatim>\<open>toFixed\<close> prints \<^verbatim>\<open>Infinity\<close>,
  \<^verbatim>\<open>parseFloat\<close> reads it back, and the first provider's entry is cached and returned.
\<close>

theorem infinite_rate_accepted:
  "parse (hd EXCHANGE_RATE_APIS) (rates_body ''CNY'' PosInf) ''CNY'' = Inr (JNum PosInf) \<and>
   fetchExchangeRate Map.empty 1000 ''USD'' ''CNY'' infinite_rate =
     (Inr \<lparr> rate = PosInf, timestamp = 1000, source = ''exchangerate-api.com'', fromCache = False \<rparr>,
      [''USD-CNY'' \<mapsto> \<lparr> rate = PosInf, timestamp = 1000, source = ''exchangerate-api.com'' \<rparr>],
      [''https://api.exchangerate-api.com/v4/latest/USD''])"
  by (simp add: run_simps infinite_rate_def rates_body_def)

text \<open>
  Claim C1, amended: an iteration accepts a provider's answer exactly when the request
  resolves and the extracted rate is a number above zero, a positive finite number or
  \<^verbatim>\<open>Infinity\<close>; the entry then carries the rate through \<^verbatim>\<open>toFixed(4)\<close>, the clock reading
  of the call and the provider's name. An iteration that accepts nothing (a rejected
  request, an exception, a rate that is zero, negative, NaN or no number) hands over to
  the next provider. A call changes the cache only by writing such an accepted entry.
\<close>

theorem accepted_rate:
  "(attempt a from to now net = Some r) =
     (\<exists>body n. net (url a from to) = Resolved body \<and> parse a body to = Inr (JNum n) \<and>
        (n = PosInf \<or> (\<exists>x. 0 < x \<and> n = Fin x)) \<and>
        r = \<lparr> rate = parseFloat_toFixed4 n, timestamp = now, source = name a \<rparr>)
   \<and> (attempt a from to now net = None \<longrightarrow>
        try_apis (a # rest) from to now net =
          (fst (try_apis rest from to now net), url a from to # snd (try_apis rest from to now net)))
   \<and> (fst (snd (fetchExchangeRate c now from to net)) \<noteq> c \<longrightarrow>
        (\<exists>b\<in>set EXCHANGE_RATE_APIS. \<exists>body n.
           net (url b from to) = Resolved body \<and> parse b body to = Inr (JNum n) \<and>
           (n = PosInf \<or> (\<exists>x. 0 < x \<and> n = Fin x)) \<and>
           fst (snd (fetchExchangeRate c now from to net)) =
             c(cacheKey from to \<mapsto> \<lparr> rate = parseFloat_toFixed4 n, timestamp = now, source = name b \<rparr>)))"
proof (intro conjI impI)
  show "(attempt a from to now net = Some r) =
     (\<exists>body n. net (url a from to) = Resolved body \<and> parse a body to = Inr (JNum n) \<and>
        (n = PosInf \<or> (\<exists>x. 0 < x \<and> n = Fin x)) \<and>
        r = \<lparr> rate = parseFloat_toFixed4 n, timestamp = now, source = name a \<rparr>)"
    by (simp add: attempt_Some num_gt_zero_iff)
next
  assume "attempt a from to now net = None"
  then show "try_apis (a # rest) from to now net =
          (fst (try_apis rest from to now net), url a from to # snd (try_apis rest from to now net))"
    by (simp split: prod.splits)
next
  let ?c' = "fst (snd (fetchExchangeRate c now from to net))"
  assume changed: "?c' \<noteq> c"
  have stale: "\<not> fresh c now from to"
  proof
    assume f: "fresh c now from to"
    then obtain e where "c (cacheKey from to) = Some e" using fresh_cached by blast
    with f changed show False by (simp add: fetch_fresh)
  qed
  obtain found reqs where t: "try_apis EXCHANGE_RATE_APIS from to now net = (found, reqs)"
    by (cases "try_apis EXCHANGE_RATE_APIS from to now net")
  show "\<exists>b\<in>set EXCHANGE_RATE_APIS. \<exists>body n.
           net (url b from to) = Resolved body \<and> parse b body to = Inr (JNum n) \<and>
           (n = PosInf \<or> (\<exists>x. 0 < x \<and> n = Fin x)) \<and>
           ?c' = c(cacheKey from to \<mapsto> \<lparr> rate = parseFloat_toFixed4 n, timestamp = now, source = name b \<rparr>)"
  proof (cases found)
    case None
    with t stale changed show ?thesis
      by (simp add: fetch_stale fetch_from_providers_def)
  next
    case (Some r)
    with t stale have c': "?c' = c(cacheKey from to \<mapsto> r)"
      by (simp add: fetch_stale fetch_from_providers_def)
    from t Some obtain failed b later where
      d: "EXCHANGE_RATE_APIS = failed @ b # later" "attempt b from to now net = Some r"
      using try_apis_Some by blast
    from d(1) have "b \<in> set EXCHANGE_RATE_APIS" by (metis in_set_conv_decomp)
    moreover from d(2) obtain body n where
      "net (url b from to) = Resolved body" "parse b body to = Inr (JNum n)" "num_gt_zero n"
      "r = \<lparr> rate = parseFloat_toFixed4 n, timestamp = now, source = name b \<rparr>"
      unfolding attempt_Some by blast
    ultimately show ?thesis using c' by (auto simp: num_gt_zero_iff)
  qed
qed

theorem accepted_rate_witness:
  "attempt (hd EXCHANGE_RATE_APIS) ''USD'' ''CNY'' 1000 second_provider_up = None \<and>
   try_apis (hd EXCHANGE_RATE_APIS # tl EXCHANGE_RATE_APIS) ''USD'' ''CNY'' 1000 second_provider_up =
     (Some \<lparr> rate = Fin (71999 / 10000), timestamp = 1000, source = ''open.er-api.com'' \<rparr>,
      [''https://api.exchangerate-api.com/v4/latest/USD'', ''https://open.er-api.com/v6/latest/USD'']) \<and>
   fst (snd (fetchExchangeRate Map.empty 1000 ''USD'' ''CNY'' second_provider_up)) \<noteq> Map.empty \<and>
   fst (snd (fetchExchangeRate Map.empty 1000 ''USD'' ''CNY'' second_provider_up)) =
     [''USD-CNY'' \<mapsto> \<lparr> rate = Fin (71999 / 10000), timestamp = 1000, source = ''open.er-api.com'' \<rparr>]"
  using accepted_rate [of "hd EXCHANGE_RATE_APIS" "''USD''" "''CNY''" 1000 second_provider_up
      "\<lparr> rate = Fin (71999 / 10000), timestamp = 1000, source = ''open.er-api.com'' \<rparr>"
      "tl EXCHANGE_RATE_APIS" Map.empty]
  by (simp add: run_simps second_provider_up_def rates_body_def fixed4_71999)

subsection \<open>The fresh cache hit\<close>

text \<open>
  Claim C3: when an entry is cached for the pair and its age is below the one-hour window,
  \<^verbatim>\<open>fetchExchangeRate\<close> returns that entry's rate, timestamp and source with
  \<^verbatim>\<open>fromCache\<close> false, requests no provider and leaves the cache as it was.
\<close>

theorem cache_hit:
  assumes "c (cacheKey from to) = Some e" and "now - timestamp e < duration"
  shows "fetchExchangeRate c now from to net =
           (Inr \<lparr> rate = rate e, timestamp = timestamp e, source = source e, fromCache = False \<rparr>, c, [])"
  using assms by (simp add: fetchExchangeRate_def from_entry_def)

theorem cache_hit_witness:
  "cached_at 1000 (cacheKey ''USD'' ''CNY'') =
     Some \<lparr> rate = Fin (72 / 10), timestamp = 1000, source = ''open.er-api.com'' \<rparr> \<and>
   3600999 - timestamp \<lparr> rate = Fin (72 / 10), timestamp = 1000, source = ''open.er-api.com'' \<rparr> < duration \<and>
   fetchExchangeRate (cached_at 1000) 3600999 ''USD'' ''CNY'' second_provider_up =
     (Inr \<lparr> rate = Fin (72 / 10), timestamp = 1000, source = ''open.er-api.com'', fromCache = False \<rparr>,
      cached_at 1000, [])"
  using cache_hit [of "cached_at 1000" "''USD''" "''CNY''"
      "\<lparr> rate = Fin (72 / 10), timestamp = 1000, source = ''open.er-api.com'' \<rparr>" 3600999 second_provider_up]
  by (simp add: cached_at_def cacheKey_def duration_def)

subsection \<open>More on the loop\<close>

lemma try_block_entry:
  "try_block a from to now net = Inr (Some r) \<Longrightarrow> timestamp r = now \<and> source r = name a"
  by (auto simp: try_block_def after_await_def accept_rate_Some split: response.splits sum.splits)

lemma attempt_None_iff:
  "attempt a from to now net = None \<longleftrightarrow> (\<forall>r. try_block a from to now net \<noteq> Inr (Some r))"
  by (auto simp: attempt_def catch_continue_def split: sum.splits)

lemma attempt_Some_iff: "attempt a from to now net = Some r \<longleftrightarrow> try_block a from to now net = Inr (Some r)"
  by (auto simp: attempt_def catch_continue_def split: sum.splits)

subsection \<open>The order of the providers\<close>

text \<open>
  Claim C2: in a call that finds no fresh entry, the providers are requested in the order
  of \<^verbatim>\<open>EXCHANGE_RATE_APIS\<close>. Whenever the list splits into providers whose iteration
  yields no entry (it raises an exception, which is caught, or it ends without one), then a
  provider whose iteration yields the entry \<open>r\<close>, then the providers after it, the call
  returns \<open>r\<close> under that provider's name with \<^verbatim>\<open>fromCache\<close> false, caches it, and has
  requested the failing providers and that provider, in this order, and none after it.
  When no provider yields an entry, all of them have been requested in order and the call
  ends with the fallback of lines 264 to 270: no exception of a provider leaves the call.
\<close>

theorem provider_order:
  assumes stale: "\<not> fresh c now from to"
  shows "(\<forall>failed a later r.
            EXCHANGE_RATE_APIS = failed @ a # later \<and>
            (\<forall>b\<in>set failed. \<forall>r'. try_block b from to now net \<noteq> Inr (Some r')) \<and>
            try_block a from to now net = Inr (Some r) \<longrightarrow>
            fetchExchangeRate c now from to net =
              (Inr \<lparr> rate = rate r, timestamp = now, source = name a, fromCache = False \<rparr>,
               c(cacheKey from to \<mapsto> r),
               requests failed from to @ [url a from to]))
       \<and> ((\<forall>b\<in>set EXCHANGE_RATE_APIS. \<forall>r'. try_block b from to now net \<noteq> Inr (Some r')) \<longrightarrow>
            fetchExchangeRate c now from to net =
              (fallback (c (cacheKey from to)), c, requests EXCHANGE_RATE_APIS from to))"
proof (intro conjI allI impI)
  fix failed a later r
  assume h: "EXCHANGE_RATE_APIS = failed @ a # later \<and>
            (\<forall>b\<in>set failed. \<forall>r'. try_block b from to now net \<noteq> Inr (Some r')) \<and>
            try_block a from to now net = Inr (Some r)"
  then have f: "\<forall>b\<in>set failed. attempt b from to now net = None"
    and ok: "attempt a from to now net = Some r"
    by (simp_all add: attempt_None_iff attempt_Some_iff)
  from h have "try_apis EXCHANGE_RATE_APIS from to now net = try_apis (failed @ a # later) from to now net"
    by simp
  also have "\<dots> = (Some r, requests (failed @ [a]) from to)"
    using f ok by (rule try_apis_first)
  finally have t: "try_apis EXCHANGE_RATE_APIS from to now net = (Some r, requests (failed @ [a]) from to)" .
  from h have "timestamp r = now" "source r = name a"
    using try_block_entry by blast+
  with t stale show "fetchExchangeRate c now from to net =
              (Inr \<lparr> rate = rate r, timestamp = now, source = name a, fromCache = False \<rparr>,
               c(cacheKey from to \<mapsto> r),
               requests failed from to @ [url a from to])"
    by (simp add: fetch_stale fetch_from_providers_def from_entry_def requests_def)
next
  assume "\<forall>b\<in>set EXCHANGE_RATE_APIS. \<forall>r'. try_block b from to now net \<noteq> Inr (Some r')"
  then have "\<forall>b\<in>set EXCHANGE_RATE_APIS. attempt b from to now net = None"
    by (simp add: attempt_None_iff)
  then have "try_apis EXCHANGE_RATE_APIS from to now net = (None, requests EXCHANGE_RATE_APIS from to)"
    by (rule try_apis_all_fail)
  with stale show "fetchExchangeRate c now from to net =
              (fallback (c (cacheKey from to)), c, requests EXCHANGE_RATE_APIS from to)"
    by (simp add: fetch_stale fetch_from_providers_def)
qed

lemma apis_split_second:
  "EXCHANGE_RATE_APIS = [hd EXCHANGE_RATE_APIS] @ hd (tl EXCHANGE_RATE_APIS) # tl (tl EXCHANGE_RATE_APIS)"
  by (simp add: EXCHANGE_RATE_APIS_def)

theorem provider_order_witness:
  "\<not> fresh Map.empty 1000 ''USD'' ''CNY'' \<and>
   try_block (hd EXCHANGE_RATE_APIS) ''USD'' ''CNY'' 1000 second_provider_up = Inl NetworkError \<and>
   try_block (hd (tl EXCHANGE_RATE_APIS)) ''USD'' ''CNY'' 1000 second_provider_up =
     Inr (Some \<lparr> rate = Fin (71999 / 10000), timestamp = 1000, source = ''open.er-api.com'' \<rparr>) \<and>
   fetchExchangeRate Map.empty 1000 ''USD'' ''CNY'' second_provider_up =
     (Inr \<lparr> rate = Fin (71999 / 10000), timestamp = 1000, source = ''open.er-api.com'', fromCache = False \<rparr>,
      [''USD-CNY'' \<mapsto> \<lparr> rate = Fin (71999 / 10000), timestamp = 1000, source = ''open.er-api.com'' \<rparr>],
      [''https://api.exchangerate-api.com/v4/latest/USD'', ''https://open.er-api.com/v6/latest/USD''])"
proof -
  have s: "\<not> fresh Map.empty 1000 ''USD'' ''CNY''"
    by (simp add: fresh_def)
  have b1: "try_block (hd EXCHANGE_RATE_APIS) ''USD'' ''CNY'' 1000 second_provider_up = Inl NetworkError"
    by (simp add: run_simps second_provider_up_def)
  have b2: "try_block (hd (tl EXCHANGE_RATE_APIS)) ''USD'' ''CNY'' 1000 second_provider_up =
     Inr (Some \<lparr> rate = Fin (71999 / 10000), timestamp = 1000, source = ''open.er-api.com'' \<rparr>)"
    by (simp add: run_simps second_provider_up_def rates_body_def fixed4_71999)
  have "fetchExchangeRate Map.empty 1000 ''USD'' ''CNY'' second_provider_up =
      (Inr \<lparr> rate = rate \<lparr> rate = Fin (71999 / 10000), timestamp = 1000, source = ''open.er-api.com'' \<rparr>,
              timestamp = 1000, source = name (hd (tl EXCHANGE_RATE_APIS)), fromCache = False \<rparr>,
       Map.empty(cacheKey ''USD'' ''CNY'' \<mapsto> \<lparr> rate = Fin (71999 / 10000), timestamp = 1000, source = ''open.er-api.com'' \<rparr>),
       requests [hd EXCHANGE_RATE_APIS] ''USD'' ''CNY'' @ [url (hd (tl EXCHANGE_RATE_APIS)) ''USD'' ''CNY''])"
    using provider_order [OF s, of second_provider_up] apis_split_second b1 b2
    by (metis (no_types, lifting) empty_iff empty_set set_ConsD sum.distinct(1))
  then show ?thesis using s b1 b2
    by (simp add: EXCHANGE_RATE_APIS_def cacheKey_def requests_def)
qed

lemma requests_nonempty: "requests EXCHANGE_RATE_APIS from to \<noteq> []"
  by (simp add: requests_def EXCHANGE_RATE_APIS_def)

lemma fetch_all_fail:
  "\<not> fresh c now from to \<Longrightarrow> \<forall>a\<in>set EXCHANGE_RATE_APIS. attempt a from to now net = None \<Longrightarrow>
     fetchExchangeRate c now from to net =
       (fallback (c (cacheKey from to)), c, requests EXCHANGE_RATE_APIS from to)"
  by (simp add: fetch_stale fetch_from_providers_def try_apis_all_fail)

lemma fetch_cases:
  obtains (hit) e where "fresh c now from to" "c (cacheKey from to) = Some e"
      "fetchExchangeRate c now from to net = (Inr (from_entry e False), c, [])"
  | (provider) r reqs where "\<not> fresh c now from to"
      "try_apis EXCHANGE_RATE_APIS from to now net = (Some r, reqs)"
      "fetchExchangeRate c now from to net = (Inr (from_entry r False), c(cacheKey from to \<mapsto> r), reqs)"
  | (exhausted) "\<not> fresh c now from to"
      "\<forall>a\<in>set EXCHANGE_RATE_APIS. attempt a from to now net = None"
      "fetchExchangeRate c now from to net =
         (fallback (c (cacheKey from to)), c, requests EXCHANGE_RATE_APIS from to)"
proof (cases "fresh c now from to")
  case True
  then obtain e where "c (cacheKey from to) = Some e" using fresh_cached by blast
  with True show ?thesis using hit fetch_fresh by blast
next
  case False
  obtain found reqs where t: "try_apis EXCHANGE_RATE_APIS from to now net = (found, reqs)"
    by (cases "try_apis EXCHANGE_RATE_APIS from to now net")
  show ?thesis
  proof (cases found)
    case None
    with t have "\<forall>a\<in>set EXCHANGE_RATE_APIS. attempt a from to now net = None"
      using try_apis_None by blast
    with False show ?thesis using exhausted fetch_all_fail by blast
  next
    case (Some r)
    with t False show ?thesis using provider
      by (simp add: fetch_stale fetch_from_providers_def)
  qed
qed

lemma try_apis_Some_entry:
  "try_apis as from to now net = (Some r, reqs) \<Longrightarrow> timestamp r = now \<and> reqs \<noteq> []"
  by (drule try_apis_Some) (auto simp: attempt_Some requests_def)

subsection \<open>The fallback to a stale entry\<close>

text \<open>
  Claim C4: in a call in which every provider fails (each one is requested and none yields
  an entry) while an entry is cached for the pair, whatever its age,
  \<^verbatim>\<open>fetchExchangeRate\<close> returns that entry's rate, timestamp and source with
  \<^verbatim>\<open>fromCache\<close> true. No other path returns a stale rate: a returned result that is
  flagged, or whose age is at least the window, comes from a call in which every provider
  failed and is the cached entry.
\<close>

theorem degraded_fallback:
  "(fetchExchangeRate c now from to net = (out, c', reqs) \<and>
    reqs = requests EXCHANGE_RATE_APIS from to \<and>
    (\<forall>a\<in>set EXCHANGE_RATE_APIS. attempt a from to now net = None) \<and>
    c (cacheKey from to) = Some e \<longrightarrow>
      out = Inr \<lparr> rate = rate e, timestamp = timestamp e, source = source e, fromCache = True \<rparr> \<and> c' = c)
   \<and> (fetchExchangeRate c now from to net = (Inr res, c', reqs) \<and>
       (fromCache res \<or> duration \<le> now - timestamp res) \<longrightarrow>
         (\<forall>a\<in>set EXCHANGE_RATE_APIS. attempt a from to now net = None) \<and>
         reqs = requests EXCHANGE_RATE_APIS from to \<and>
         (\<exists>e'. c (cacheKey from to) = Some e' \<and>
            res = \<lparr> rate = rate e', timestamp = timestamp e', source = source e', fromCache = True \<rparr>))"
proof (rule conjI; rule impI; elim conjE)
  assume f: "fetchExchangeRate c now from to net = (out, c', reqs)"
    and q: "reqs = requests EXCHANGE_RATE_APIS from to"
    and n: "\<forall>a\<in>set EXCHANGE_RATE_APIS. attempt a from to now net = None"
    and k: "c (cacheKey from to) = Some e"
  have stale: "\<not> fresh c now from to"
  proof
    assume "fresh c now from to"
    then have "fetchExchangeRate c now from to net = (Inr (from_entry e False), c, [])"
      using k by (rule fetch_fresh)
    with f have "reqs = []" by simp
    with q show False using requests_nonempty [of "from" to] by simp
  qed
  have "fetchExchangeRate c now from to net =
      (fallback (c (cacheKey from to)), c, requests EXCHANGE_RATE_APIS from to)"
    using stale n by (rule fetch_all_fail)
  then have "(out, c', reqs) = (fallback (c (cacheKey from to)), c, requests EXCHANGE_RATE_APIS from to)"
    unfolding f .
  then have o: "out = fallback (c (cacheKey from to))" and c': "c' = c" by blast+
  from o have "out = Inr (from_entry e True)" unfolding k by (simp add: fallback_def)
  with c' show "out = Inr \<lparr> rate = rate e, timestamp = timestamp e, source = source e, fromCache = True \<rparr> \<and> c' = c"
    by (simp add: from_entry_def)
next
  assume f: "fetchExchangeRate c now from to net = (Inr res, c', reqs)"
    and s: "fromCache res \<or> duration \<le> now - timestamp res"
  show "(\<forall>a\<in>set EXCHANGE_RATE_APIS. attempt a from to now net = None) \<and>
         reqs = requests EXCHANGE_RATE_APIS from to \<and>
         (\<exists>e'. c (cacheKey from to) = Some e' \<and>
            res = \<lparr> rate = rate e', timestamp = timestamp e', source = source e', fromCache = True \<rparr>)"
  proof (rule fetch_cases [of c now "from" to net, case_names hit provider exhausted], goal_cases)
    case (1 e)
    note hit = this
    from f hit(3) have "res = from_entry e False" by simp
    then have "\<not> fromCache res" "timestamp res = timestamp e" by (simp_all add: from_entry_def)
    moreover from hit(1,2) have "now - timestamp e < duration" by (simp add: fresh_def)
    ultimately show ?thesis using s by simp
  next
    case (2 r rs)
    note provider = this
    then have "timestamp r = now" using try_apis_Some_entry by blast
    moreover from provider(3) f have "res = from_entry r False" by simp
    ultimately have "\<not> fromCache res" "now - timestamp res = 0" by (simp_all add: from_entry_def)
    with s show ?thesis by (simp add: duration_def)
  next
    case 3
    note exhausted = this
    from exhausted(3) f have fb: "fallback (c (cacheKey from to)) = Inr res"
      and q: "reqs = requests EXCHANGE_RATE_APIS from to"
      by simp_all
    from fb obtain e' where "c (cacheKey from to) = Some e'" "res = from_entry e' True"
      by (cases "c (cacheKey from to)") (simp_all add: fallback_def)
    with exhausted(2) q show ?thesis by (simp add: from_entry_def)
  qed
qed

lemma offline_fails: "\<forall>a\<in>set EXCHANGE_RATE_APIS. attempt a from to now offline = None"
  by (simp add: attempt_def try_block_def after_await_def catch_continue_def offline_def)

theorem degraded_fallback_witness:
  "fetchExchangeRate (cached_at 1000) 9999999 ''USD'' ''CNY'' offline =
     (Inr \<lparr> rate = Fin (72 / 10), timestamp = 1000, source = ''open.er-api.com'', fromCache = True \<rparr>,
      cached_at 1000,
      [''https://api.exchangerate-api.com/v4/latest/USD'', ''https://open.er-api.com/v6/latest/USD'',
       ''https://api.frankfurter.app/latest?from=USD&to=CNY'']) \<and>
   requests EXCHANGE_RATE_APIS ''USD'' ''CNY'' =
     [''https://api.exchangerate-api.com/v4/latest/USD'', ''https://open.er-api.com/v6/latest/USD'',
       ''https://api.frankfurter.app/latest?from=USD&to=CNY''] \<and>
   list_all (\<lambda>a. attempt a ''USD'' ''CNY'' 9999999 offline = None) EXCHANGE_RATE_APIS \<and>
   cached_at 1000 (cacheKey ''USD'' ''CNY'') =
     Some \<lparr> rate = Fin (72 / 10), timestamp = 1000, source = ''open.er-api.com'' \<rparr> \<and>
   duration \<le> 9999999 - 1000"
proof -
  have r: "requests EXCHANGE_RATE_APIS ''USD'' ''CNY'' =
     [''https://api.exchangerate-api.com/v4/latest/USD'', ''https://open.er-api.com/v6/latest/USD'',
       ''https://api.frankfurter.app/latest?from=USD&to=CNY'']"
    by (simp add: requests_def EXCHANGE_RATE_APIS_def)
  have k: "cached_at 1000 (cacheKey ''USD'' ''CNY'') =
     Some \<lparr> rate = Fin (72 / 10), timestamp = 1000, source = ''open.er-api.com'' \<rparr>"
    by (simp add: cached_at_def cacheKey_def)
  have n: "\<forall>a\<in>set EXCHANGE_RATE_APIS. attempt a ''USD'' ''CNY'' 9999999 offline = None"
    by (rule offline_fails)
  obtain out c' reqs where f: "fetchExchangeRate (cached_at 1000) 9999999 ''USD'' ''CNY'' offline = (out, c', reqs)"
    by (cases "fetchExchangeRate (cached_at 1000) 9999999 ''USD'' ''CNY'' offline")
  have "snd (snd (fetchExchangeRate (cached_at 1000) 9999999 ''USD'' ''CNY'' offline)) =
      requests EXCHANGE_RATE_APIS ''USD'' ''CNY''"
    by (simp add: run_simps offline_def cached_at_def requests_def)
  then have q: "reqs = requests EXCHANGE_RATE_APIS ''USD'' ''CNY''"
    unfolding f by simp
  let ?e = "\<lparr> rate = Fin (72 / 10), timestamp = 1000, source = ''open.er-api.com'' \<rparr>"
  have "out = Inr \<lparr> rate = rate ?e, timestamp = timestamp ?e, source = source ?e, fromCache = True \<rparr> \<and>
        c' = cached_at 1000"
    by (rule degraded_fallback [of "cached_at 1000" 9999999 "''USD''" "''CNY''" offline out c' reqs ?e,
          THEN conjunct1, THEN mp]) (intro conjI f q k n)
  then have "out = Inr \<lparr> rate = Fin (72 / 10), timestamp = 1000, source = ''open.er-api.com'', fromCache = True \<rparr>"
    and "c' = cached_at 1000"
    by simp_all
  then have "fetchExchangeRate (cached_at 1000) 9999999 ''USD'' ''CNY'' offline =
     (Inr \<lparr> rate = Fin (72 / 10), timestamp = 1000, source = ''open.er-api.com'', fromCache = True \<rparr>,
      cached_at 1000, requests EXCHANGE_RATE_APIS ''USD'' ''CNY'')"
    unfolding f q by simp
  moreover have "list_all (\<lambda>a. attempt a ''USD'' ''CNY'' 9999999 offline = None) EXCHANGE_RATE_APIS"
    using n by (simp add: list_all_iff)
  moreover have "duration \<le> 9999999 - 1000" by (simp add: duration_def)
  ultimately show ?thesis using r k by simp
qed

subsection \<open>The hard failure\<close>

text \<open>
  Claim C5: when every provider fails and no entry is cached for the pair,
  \<^verbatim>\<open>fetchExchangeRate\<close> fails with NoRateAvailable. It raises nothing else, and raises
  only then: on every other input it returns a result.
\<close>

theorem hard_failure:
  "(c (cacheKey from to) = None \<and> (\<forall>a\<in>set EXCHANGE_RATE_APIS. attempt a from to now net = None) \<longrightarrow>
      fetchExchangeRate c now from to net = (Inl NoRateAvailable, c, requests EXCHANGE_RATE_APIS from to))
   \<and> (fst (fetchExchangeRate c now from to net) = Inl err \<longrightarrow>
        err = NoRateAvailable \<and> c (cacheKey from to) = None \<and>
        (\<forall>a\<in>set EXCHANGE_RATE_APIS. attempt a from to now net = None))
   \<and> (\<not> (c (cacheKey from to) = None \<and> (\<forall>a\<in>set EXCHANGE_RATE_APIS. attempt a from to now net = None)) \<longrightarrow>
        (\<exists>res. fst (fetchExchangeRate c now from to net) = Inr res))"
proof -
  have 1: "fetchExchangeRate c now from to net = (Inl NoRateAvailable, c, requests EXCHANGE_RATE_APIS from to)"
    if "c (cacheKey from to) = None" "\<forall>a\<in>set EXCHANGE_RATE_APIS. attempt a from to now net = None"
  proof -
    from that(1) have "\<not> fresh c now from to" by (simp add: fresh_def)
    with that show ?thesis by (simp add: fetch_all_fail fallback_def)
  qed
  have 2: "err = NoRateAvailable \<and> c (cacheKey from to) = None \<and>
        (\<forall>a\<in>set EXCHANGE_RATE_APIS. attempt a from to now net = None)"
    if e: "fst (fetchExchangeRate c now from to net) = Inl err" for err
  proof (rule fetch_cases [of c now "from" to net], goal_cases)
    case (1 e')
    with e show ?case by simp
  next
    case (2 r reqs)
    with e show ?case by simp
  next
    case 3
    from 3(3) e have "fallback (c (cacheKey from to)) = Inl err" by simp
    then have "err = NoRateAvailable \<and> c (cacheKey from to) = None"
      by (cases "c (cacheKey from to)") (simp_all add: fallback_def)
    with 3(2) show ?case by simp
  qed
  have 3: "\<exists>res. fst (fetchExchangeRate c now from to net) = Inr res"
    if "\<not> (c (cacheKey from to) = None \<and> (\<forall>a\<in>set EXCHANGE_RATE_APIS. attempt a from to now net = None))"
  proof (cases "fst (fetchExchangeRate c now from to net)")
    case (Inl e)
    with 2 [of e] that show ?thesis by simp
  next
    case (Inr res)
    then show ?thesis by blast
  qed
  from 1 2 3 show ?thesis by blast
qed

theorem hard_failure_witness:
  "Map.empty (cacheKey ''USD'' ''CNY'') = (None :: cache_entry option) \<and>
   list_all (\<lambda>a. attempt a ''USD'' ''CNY'' 1000 offline = None) EXCHANGE_RATE_APIS \<and>
   fetchExchangeRate Map.empty 1000 ''USD'' ''CNY'' offline =
     (Inl NoRateAvailable, Map.empty,
      [''https://api.exchangerate-api.com/v4/latest/USD'', ''https://open.er-api.com/v6/latest/USD'',
       ''https://api.frankfurter.app/latest?from=USD&to=CNY'']) \<and>
   cached_at 1000 (cacheKey ''USD'' ''CNY'') \<noteq> None \<and>
   fst (fetchExchangeRate (cached_at 1000) 9999999 ''USD'' ''CNY'' offline) =
     Inr \<lparr> rate = Fin (72 / 10), timestamp = 1000, source = ''open.er-api.com'', fromCache = True \<rparr>"
proof -
  have n: "\<forall>a\<in>set EXCHANGE_RATE_APIS. attempt a ''USD'' ''CNY'' 1000 offline = None"
    by (rule offline_fails)
  have "fetchExchangeRate Map.empty 1000 ''USD'' ''CNY'' offline =
     (Inl NoRateAvailable, Map.empty, requests EXCHANGE_RATE_APIS ''USD'' ''CNY'')"
    using hard_failure [of "Map.empty :: cache_data" "''USD''" "''CNY''" 1000 offline NoRateAvailable] n
    by simp
  moreover have "cached_at 1000 (cacheKey ''USD'' ''CNY'') \<noteq> None"
    by (simp add: cached_at_def cacheKey_def)
  moreover have "fst (fetchExchangeRate (cached_at 1000) 9999999 ''USD'' ''CNY'' offline) =
     Inr \<lparr> rate = Fin (72 / 10), timestamp = 1000, source = ''open.er-api.com'', fromCache = True \<rparr>"
    by (simp add: run_simps offline_def cached_at_def)
  moreover have "list_all (\<lambda>a. attempt a ''USD'' ''CNY'' 1000 offline = None) EXCHANGE_RATE_APIS"
    using n by (simp add: list_all_iff)
  ultimately show ?thesis
    by (simp add: requests_def EXCHANGE_RATE_APIS_def)
qed

subsection \<open>Rounding to four decimals\<close>

lemma fixed4_nearest:
  assumes "a < 10 ^ 21 \<or> a \<in> \<int>"
  shows "(\<exists>k::int. fixed4 a = of_int k / 10 ^ 4) \<and> a - 1 / 20000 < fixed4 a \<and> fixed4 a \<le> a + 1 / 20000"
proof (cases "(10::rat) ^ 21 \<le> a")
  case True
  with assms obtain z :: int where z: "a = of_int z" by (auto elim: Ints_cases)
  have "fixed4 a = of_int (z * 10 ^ 4) / 10 ^ 4" using True z by (simp add: fixed4_def)
  then have "\<exists>k::int. fixed4 a = of_int k / 10 ^ 4" by blast
  moreover have "fixed4 a = a" using True by (simp add: fixed4_def)
  ultimately show ?thesis by simp
next
  case False
  let ?k = "\<lfloor>a * 10 ^ 4 + 1 / 2\<rfloor>"
  have f: "fixed4 a = of_int ?k / 10 ^ 4" using False by (simp add: fixed4_def)
  have "of_int ?k \<le> a * 10 ^ 4 + 1 / 2" by (rule of_int_floor_le)
  then have up: "of_int ?k / 10 ^ 4 \<le> a + 1 / 20000" by (simp add: field_simps)
  have "a * 10 ^ 4 + 1 / 2 < of_int ?k + 1" using floor_correct [of "a * 10 ^ 4 + 1 / 2"] by simp
  then have lo: "a - 1 / 20000 < of_int ?k / 10 ^ 4" by (simp add: field_simps)
  have "\<exists>k::int. of_int ?k / (10::rat) ^ 4 = of_int k / 10 ^ 4" by blast
  with up lo show ?thesis unfolding f by blast
qed

text \<open>
  Claim C6: the rate of an accepted provider answer is stored and returned rounded to four
  decimals. When the providers before \<open>a\<close> fail and \<open>a\<close> answers with the finite rate
  \<open>R > 0\<close>, the call caches and returns one and the same rate \<open>s\<close>, which is a
  multiple of \<open>1 / 10^4\<close> and the nearest one to \<open>R\<close>, the upper one of two equally
  near: \<open>R - 1/20000 < s \<le> R + 1/20000\<close>. A double of magnitude \<open>10^21\<close> or more is
  an integer, which is what the last hypothesis says of \<open>R\<close>. The witness is the
  specification's example, \<open>7.23456789\<close> stored and returned as \<open>7.2346\<close>.
\<close>

theorem rate_rounded:
  assumes stale: "\<not> fresh c now from to"
    and split: "EXCHANGE_RATE_APIS = failed @ a # later"
    and failed: "\<forall>b\<in>set failed. attempt b from to now net = None"
    and resolved: "net (url a from to) = Resolved body"
    and parsed: "parse a body to = Inr (JNum (Fin R))"
    and pos: "0 < R"
    and double: "R < 10 ^ 21 \<or> R \<in> \<int>"
  shows "\<exists>s. fetchExchangeRate c now from to net =
              (Inr \<lparr> rate = Fin s, timestamp = now, source = name a, fromCache = False \<rparr>,
               c(cacheKey from to \<mapsto> \<lparr> rate = Fin s, timestamp = now, source = name a \<rparr>),
               requests (failed @ [a]) from to)
            \<and> (\<exists>k::int. s = of_int k / 10 ^ 4) \<and> R - 1 / 20000 < s \<and> s \<le> R + 1 / 20000"
proof -
  let ?r = "\<lparr> rate = Fin (fixed4 R), timestamp = now, source = name a \<rparr>"
  have "attempt a from to now net = Some ?r"
    using resolved parsed pos
    by (simp add: attempt_def try_block_def after_await_def catch_continue_def)
  with failed have "try_apis (failed @ a # later) from to now net = (Some ?r, requests (failed @ [a]) from to)"
    by (rule try_apis_first)
  with split stale have "fetchExchangeRate c now from to net =
      (Inr (from_entry ?r False), c(cacheKey from to \<mapsto> ?r), requests (failed @ [a]) from to)"
    by (simp add: fetch_stale fetch_from_providers_def)
  then have "fetchExchangeRate c now from to net =
              (Inr \<lparr> rate = Fin (fixed4 R), timestamp = now, source = name a, fromCache = False \<rparr>,
               c(cacheKey from to \<mapsto> \<lparr> rate = Fin (fixed4 R), timestamp = now, source = name a \<rparr>),
               requests (failed @ [a]) from to)"
    by (simp add: from_entry_def)
  with fixed4_nearest [OF double] show ?thesis by blast
qed

lemma apis_split_first: "EXCHANGE_RATE_APIS = [] @ hd EXCHANGE_RATE_APIS # tl EXCHANGE_RATE_APIS"
  by (simp add: EXCHANGE_RATE_APIS_def)

theorem rate_rounded_witness:
  "\<not> fresh Map.empty 1000 ''USD'' ''CNY'' \<and>
   first_provider_up (url (hd EXCHANGE_RATE_APIS) ''USD'' ''CNY'') =
     Resolved (rates_body ''CNY'' (Fin (723456789 / 100000000))) \<and>
   parse (hd EXCHANGE_RATE_APIS) (rates_body ''CNY'' (Fin (723456789 / 100000000))) ''CNY'' =
     Inr (JNum (Fin (723456789 / 100000000))) \<and>
   (\<exists>s. fetchExchangeRate Map.empty 1000 ''USD'' ''CNY'' first_provider_up =
          (Inr \<lparr> rate = Fin s, timestamp = 1000, source = ''exchangerate-api.com'', fromCache = False \<rparr>,
           [''USD-CNY'' \<mapsto> \<lparr> rate = Fin s, timestamp = 1000, source = ''exchangerate-api.com'' \<rparr>],
           [''https://api.exchangerate-api.com/v4/latest/USD'']) \<and>
        (\<exists>k::int. s = of_int k / 10 ^ 4) \<and> 723456789 / 100000000 - 1 / 20000 < s \<and>
        s \<le> 723456789 / 100000000 + 1 / 20000) \<and>
   fst (fetchExchangeRate Map.empty 1000 ''USD'' ''CNY'' first_provider_up) =
     Inr \<lparr> rate = Fin (72346 / 10000), timestamp = 1000, source = ''exchangerate-api.com'', fromCache = False \<rparr>"
proof -
  have s: "\<not> fresh Map.empty 1000 ''USD'' ''CNY''" by (simp add: fresh_def)
  have n: "first_provider_up (url (hd EXCHANGE_RATE_APIS) ''USD'' ''CNY'') =
     Resolved (rates_body ''CNY'' (Fin (723456789 / 100000000)))"
    by (simp add: first_provider_up_def EXCHANGE_RATE_APIS_def)
  have p: "parse (hd EXCHANGE_RATE_APIS) (rates_body ''CNY'' (Fin (723456789 / 100000000))) ''CNY'' =
     Inr (JNum (Fin (723456789 / 100000000)))"
    by (simp add: EXCHANGE_RATE_APIS_def parse_rates_def rates_body_def)
  have f: "fixed4 (723456789 / 100000000) = 72346 / 10000" by code_simp
  have v: "fst (fetchExchangeRate Map.empty 1000 ''USD'' ''CNY'' first_provider_up) =
     Inr \<lparr> rate = Fin (72346 / 10000), timestamp = 1000, source = ''exchangerate-api.com'', fromCache = False \<rparr>"
    by (simp add: run_simps first_provider_up_def rates_body_def f)
  have "\<exists>s. fetchExchangeRate Map.empty 1000 ''USD'' ''CNY'' first_provider_up =
          (Inr \<lparr> rate = Fin s, timestamp = 1000, source = name (hd EXCHANGE_RATE_APIS), fromCache = False \<rparr>,
           Map.empty(cacheKey ''USD'' ''CNY'' \<mapsto> \<lparr> rate = Fin s, timestamp = 1000, source = name (hd EXCHANGE_RATE_APIS) \<rparr>),
           requests ([] @ [hd EXCHANGE_RATE_APIS]) ''USD'' ''CNY'') \<and>
        (\<exists>k::int. s = of_int k / 10 ^ 4) \<and> 723456789 / 100000000 - 1 / 20000 < s \<and>
        s \<le> 723456789 / 100000000 + 1 / 20000"
    by (rule rate_rounded [of "Map.empty :: cache_data" 1000 "''USD''" "''CNY''" "[]" "hd EXCHANGE_RATE_APIS"
          "tl EXCHANGE_RATE_APIS" first_provider_up "rates_body ''CNY'' (Fin (723456789 / 100000000))"
          "723456789 / 100000000", OF s apis_split_first _ n p]) simp_all
  then have "\<exists>s. fetchExchangeRate Map.empty 1000 ''USD'' ''CNY'' first_provider_up =
          (Inr \<lparr> rate = Fin s, timestamp = 1000, source = ''exchangerate-api.com'', fromCache = False \<rparr>,
           [''USD-CNY'' \<mapsto> \<lparr> rate = Fin s, timestamp = 1000, source = ''exchangerate-api.com'' \<rparr>],
           [''https://api.exchangerate-api.com/v4/latest/USD'']) \<and>
        (\<exists>k::int. s = of_int k / 10 ^ 4) \<and> 723456789 / 100000000 - 1 / 20000 < s \<and>
        s \<le> 723456789 / 100000000 + 1 / 20000"
    by (simp add: EXCHANGE_RATE_APIS_def cacheKey_def requests_def)
  with s n p v show ?thesis by blast
qed

subsection \<open>The boundary of the freshness window\<close>

lemma try_apis_requests_first:
  "snd (try_apis (a # rest) from to now net) \<noteq> [] \<and>
   hd (snd (try_apis (a # rest) from to now net)) = url a from to"
  by (simp split: option.splits prod.splits)

lemma providers_requested:
  "snd (snd (fetch_from_providers c now from to net)) \<noteq> [] \<and>
   hd (snd (snd (fetch_from_providers c now from to net))) = url (hd EXCHANGE_RATE_APIS) from to"
proof -
  obtain a rest where l: "EXCHANGE_RATE_APIS = a # rest"
    by (simp add: EXCHANGE_RATE_APIS_def)
  have "snd (snd (fetch_from_providers c now from to net)) = snd (try_apis (a # rest) from to now net)"
    unfolding fetch_from_providers_def l
    by (cases "try_apis (a # rest) from to now net") (simp split: option.splits)
  then show ?thesis
    using try_apis_requests_first [of a rest "from" to now net] by (simp add: l)
qed

text \<open>
  Claim C9: the test of line 223 is strict. An entry whose age equals the window exactly
  is stale: the call goes through the provider loop, so that its first request is the one
  to the first provider, and it is not answered as a fresh hit.
\<close>

theorem freshness_strict:
  assumes "c (cacheKey from to) = Some e" and "now - timestamp e = duration"
  shows "fetchExchangeRate c now from to net = fetch_from_providers c now from to net \<and>
         snd (snd (fetchExchangeRate c now from to net)) \<noteq> [] \<and>
         hd (snd (snd (fetchExchangeRate c now from to net))) = url (hd EXCHANGE_RATE_APIS) from to \<and>
         fetchExchangeRate c now from to net \<noteq> (Inr (from_entry e False), c, [])"
proof -
  from assms have f: "fetchExchangeRate c now from to net = fetch_from_providers c now from to net"
    by (simp add: fetchExchangeRate_def)
  moreover have "snd (snd (fetchExchangeRate c now from to net)) \<noteq> []"
    "hd (snd (snd (fetchExchangeRate c now from to net))) = url (hd EXCHANGE_RATE_APIS) from to"
    unfolding f using providers_requested [of c now "from" to net] by simp_all
  moreover from this(1) have "fetchExchangeRate c now from to net \<noteq> (Inr (from_entry e False), c, [])"
    by auto
  ultimately show ?thesis by simp
qed

theorem freshness_strict_witness:
  "cached_at 1000 (cacheKey ''USD'' ''CNY'') =
     Some \<lparr> rate = Fin (72 / 10), timestamp = 1000, source = ''open.er-api.com'' \<rparr> \<and>
   3601000 - timestamp \<lparr> rate = Fin (72 / 10), timestamp = 1000, source = ''open.er-api.com'' \<rparr> = duration \<and>
   fetchExchangeRate (cached_at 1000) 3601000 ''USD'' ''CNY'' offline =
     (Inr \<lparr> rate = Fin (72 / 10), timestamp = 1000, source = ''open.er-api.com'', fromCache = True \<rparr>,
      cached_at 1000,
      [''https://api.exchangerate-api.com/v4/latest/USD'', ''https://open.er-api.com/v6/latest/USD'',
       ''https://api.frankfurter.app/latest?from=USD&to=CNY'']) \<and>
   fetchExchangeRate (cached_at 1000) 3600999 ''USD'' ''CNY'' offline =
     (Inr \<lparr> rate = Fin (72 / 10), timestamp = 1000, source = ''open.er-api.com'', fromCache = False \<rparr>,
      cached_at 1000, [])"
proof -
  let ?e = "\<lparr> rate = Fin (72 / 10), timestamp = 1000, source = ''open.er-api.com'' \<rparr>"
  have k: "cached_at 1000 (cacheKey ''USD'' ''CNY'') = Some ?e"
    by (simp add: cached_at_def cacheKey_def)
  have d: "3601000 - timestamp ?e = duration" by (simp add: duration_def)
  have "fetchExchangeRate (cached_at 1000) 3601000 ''USD'' ''CNY'' offline =
      fetch_from_providers (cached_at 1000) 3601000 ''USD'' ''CNY'' offline"
    using freshness_strict [of "cached_at 1000" "''USD''" "''CNY''" ?e 3601000 offline, OF k d]
    by (rule conjunct1)
  also have "\<dots> = (Inr \<lparr> rate = Fin (72 / 10), timestamp = 1000, source = ''open.er-api.com'', fromCache = True \<rparr>,
      cached_at 1000,
      [''https://api.exchangerate-api.com/v4/latest/USD'', ''https://open.er-api.com/v6/latest/USD'',
       ''https://api.frankfurter.app/latest?from=USD&to=CNY''])"
    by (simp add: fetch_from_providers_def fallback_def EXCHANGE_RATE_APIS_def attempt_def try_block_def
        after_await_def catch_continue_def offline_def cached_at_def cacheKey_def from_entry_def)
  finally have a: "fetchExchangeRate (cached_at 1000) 3601000 ''USD'' ''CNY'' offline =
     (Inr \<lparr> rate = Fin (72 / 10), timestamp = 1000, source = ''open.er-api.com'', fromCache = True \<rparr>,
      cached_at 1000,
      [''https://api.exchangerate-api.com/v4/latest/USD'', ''https://open.er-api.com/v6/latest/USD'',
       ''https://api.frankfurter.app/latest?from=USD&to=CNY''])" .
  have b: "fetchExchangeRate (cached_at 1000) 3600999 ''USD'' ''CNY'' offline =
     (Inr \<lparr> rate = Fin (72 / 10), timestamp = 1000, source = ''open.er-api.com'', fromCache = False \<rparr>,
      cached_at 1000, [])"
    by (simp add: fetchExchangeRate_def cached_at_def cacheKey_def from_entry_def duration_def)
  from k d a b show ?thesis by blast
qed

subsection \<open>The handler's defaults\<close>

text \<open>
  Claim C10: an omitted \<^verbatim>\<open>from\<close> stands for \<^verbatim>\<open>USD\<close> and an omitted \<^verbatim>\<open>to\<close> for
  \<^verbatim>\<open>CNY\<close>. Both are supported currencies, so a request without parameters is not
  answered with status 400: it resolves the pair USD-CNY through \<^verbatim>\<open>fetchExchangeRate\<close>.
\<close>

theorem handler_defaults:
  "exchange_rate_handler c now None qto net = exchange_rate_handler c now (Some ''USD'') qto net \<and>
   exchange_rate_handler c now qfrom None net = exchange_rate_handler c now qfrom (Some ''CNY'') net \<and>
   List.member supportedCurrencies ''USD'' \<and> List.member supportedCurrencies ''CNY'' \<and>
   fst (exchange_rate_handler c now None None net) \<noteq> Status400 \<and>
   exchange_rate_handler c now None None net =
     (case fetchExchangeRate c now ''USD'' ''CNY'' net of
        (Inr r, c', reqs) \<Rightarrow>
          (Status200 \<lparr> rate = rate r, timestamp = timestamp r, source = source r,
                       fromCache = fromCache r, base = ''USD'', target = ''CNY'' \<rparr>, c', reqs)
      | (Inl e, c', reqs) \<Rightarrow> (Status500 e, c', reqs))"
proof -
  have m: "List.member supportedCurrencies ''USD''" "List.member supportedCurrencies ''CNY''"
    by (simp_all add: supportedCurrencies_def)
  have d: "exchange_rate_handler c now None qto net = exchange_rate_handler c now (Some ''USD'') qto net"
    "exchange_rate_handler c now qfrom None net = exchange_rate_handler c now qfrom (Some ''CNY'') net"
    by (simp_all add: exchange_rate_handler_def query_default_def Let_def)
  have h: "exchange_rate_handler c now None None net =
     (case fetchExchangeRate c now ''USD'' ''CNY'' net of
        (Inr r, c', reqs) \<Rightarrow>
          (Status200 \<lparr> rate = rate r, timestamp = timestamp r, source = source r,
                       fromCache = fromCache r, base = ''USD'', target = ''CNY'' \<rparr>, c', reqs)
      | (Inl e, c', reqs) \<Rightarrow> (Status500 e, c', reqs))"
    using m by (simp add: exchange_rate_handler_def query_default_def Let_def)
  have "fst (exchange_rate_handler c now None None net) \<noteq> Status400"
    unfolding h by (simp split: prod.splits sum.splits)
  with m d h show ?thesis by simp
qed

theorem handler_defaults_witness:
  "exchange_rate_handler Map.empty 1000 None None second_provider_up =
     (Status200 \<lparr> rate = Fin (71999 / 10000), timestamp = 1000, source = ''open.er-api.com'',
                  fromCache = False, base = ''USD'', target = ''CNY'' \<rparr>,
      [''USD-CNY'' \<mapsto> \<lparr> rate = Fin (71999 / 10000), timestamp = 1000, source = ''open.er-api.com'' \<rparr>],
      [''https://api.exchangerate-api.com/v4/latest/USD'', ''https://open.er-api.com/v6/latest/USD'']) \<and>
   exchange_rate_handler Map.empty 1000 None None offline =
     (Status500 NoRateAvailable, Map.empty,
      [''https://api.exchangerate-api.com/v4/latest/USD'', ''https://open.er-api.com/v6/latest/USD'',
       ''https://api.frankfurter.app/latest?from=USD&to=CNY'']) \<and>
   exchange_rate_handler Map.empty 1000 (Some ''usd'') None offline = (Status400, Map.empty, [])"
proof -
  note last = conjunct2 [THEN conjunct2, THEN conjunct2, THEN conjunct2, THEN conjunct2]
  have "exchange_rate_handler Map.empty 1000 None None second_provider_up =
     (case fetchExchangeRate Map.empty 1000 ''USD'' ''CNY'' second_provider_up of
        (Inr r, c', reqs) \<Rightarrow>
          (Status200 \<lparr> rate = rate r, timestamp = timestamp r, source = source r,
                       fromCache = fromCache r, base = ''USD'', target = ''CNY'' \<rparr>, c', reqs)
      | (Inl e, c', reqs) \<Rightarrow> (Status500 e, c', reqs))"
    by (rule handler_defaults [of "Map.empty :: cache_data" 1000 None second_provider_up None, THEN last])
  then have 1: "exchange_rate_handler Map.empty 1000 None None second_provider_up =
     (Status200 \<lparr> rate = Fin (71999 / 10000), timestamp = 1000, source = ''open.er-api.com'',
                  fromCache = False, base = ''USD'', target = ''CNY'' \<rparr>,
      [''USD-CNY'' \<mapsto> \<lparr> rate = Fin (71999 / 10000), timestamp = 1000, source = ''open.er-api.com'' \<rparr>],
      [''https://api.exchangerate-api.com/v4/latest/USD'', ''https://open.er-api.com/v6/latest/USD''])"
    by (simp add: run_simps second_provider_up_def rates_body_def fixed4_71999)
  have "exchange_rate_handler Map.empty 1000 None None offline =
     (case fetchExchangeRate Map.empty 1000 ''USD'' ''CNY'' offline of
        (Inr r, c', reqs) \<Rightarrow>
          (Status200 \<lparr> rate = rate r, timestamp = timestamp r, source = source r,
                       fromCache = fromCache r, base = ''USD'', target = ''CNY'' \<rparr>, c', reqs)
      | (Inl e, c', reqs) \<Rightarrow> (Status500 e, c', reqs))"
    by (rule handler_defaults [of "Map.empty :: cache_data" 1000 None offline None, THEN last])
  then have 2: "exchange_rate_handler Map.empty 1000 None None offline =
     (Status500 NoRateAvailable, Map.empty,
      [''https://api.exchangerate-api.com/v4/latest/USD'', ''https://open.er-api.com/v6/latest/USD'',
       ''https://api.frankfurter.app/latest?from=USD&to=CNY''])"
    by (simp add: run_simps offline_def)
  have 3: "exchange_rate_handler Map.empty 1000 (Some ''usd'') None offline = (Status400, Map.empty, [])"
    by (simp add: exchange_rate_handler_def query_default_def Let_def supportedCurrencies_def)
  from 1 2 3 show ?thesis by blast
qed

subsection \<open>Who changes the cache\<close>

lemma handler_cache:
  "fst (snd (exchange_rate_handler c now qfrom qto net)) = c \<or>
   (query_default qfrom ''USD'' \<noteq> query_default qto ''CNY'' \<and>
    fst (snd (exchange_rate_handler c now qfrom qto net)) =
      fst (snd (fetchExchangeRate c now (query_default qfrom ''USD'') (query_default qto ''CNY'') net)))"
  by (simp add: exchange_rate_handler_def Let_def split: prod.splits sum.splits)

lemma fetch_cache:
  "fst (snd (fetchExchangeRate c now from to net)) = c \<or>
   (\<not> fresh c now from to \<and>
    (\<exists>r reqs. try_apis EXCHANGE_RATE_APIS from to now net = (Some r, reqs) \<and>
       fst (fetchExchangeRate c now from to net) = Inr (from_entry r False) \<and>
       fst (snd (fetchExchangeRate c now from to net)) = c(cacheKey from to \<mapsto> r)))"
  by (rule fetch_cases [of c now "from" to net]) simp_all

text \<open>
  Claim C7: only the path on which a provider succeeds changes the cache. The identity
  answer of the handler (equal codes), the fresh hit, and a call in which every provider
  fails, which ends in the flagged stale entry or in the hard failure, leave the cache as
  it was; and when a request has changed the cache, the codes differ, no fresh entry was
  there and the loop has found an entry, which is what was written for the pair.
\<close>

theorem cache_frame:
  "(query_default qfrom ''USD'' = query_default qto ''CNY'' \<longrightarrow>
      fst (snd (exchange_rate_handler c now qfrom qto net)) = c \<and>
      snd (snd (exchange_rate_handler c now qfrom qto net)) = [])
   \<and> (fresh c now from to \<longrightarrow> fst (snd (fetchExchangeRate c now from to net)) = c)
   \<and> ((\<forall>a\<in>set EXCHANGE_RATE_APIS. attempt a from to now net = None) \<longrightarrow>
        fst (snd (fetchExchangeRate c now from to net)) = c)
   \<and> (fst (snd (exchange_rate_handler c now qfrom qto net)) \<noteq> c \<longrightarrow>
        query_default qfrom ''USD'' \<noteq> query_default qto ''CNY'' \<and>
        \<not> fresh c now (query_default qfrom ''USD'') (query_default qto ''CNY'') \<and>
        (\<exists>r reqs.
           try_apis EXCHANGE_RATE_APIS (query_default qfrom ''USD'') (query_default qto ''CNY'') now net =
             (Some r, reqs) \<and>
           fst (snd (exchange_rate_handler c now qfrom qto net)) =
             c(cacheKey (query_default qfrom ''USD'') (query_default qto ''CNY'') \<mapsto> r)))"
proof (intro conjI impI)
  assume "query_default qfrom ''USD'' = query_default qto ''CNY''"
  then show "fst (snd (exchange_rate_handler c now qfrom qto net)) = c"
    and "snd (snd (exchange_rate_handler c now qfrom qto net)) = []"
    by (simp_all add: exchange_rate_handler_def Let_def)
next
  assume "fresh c now from to"
  then show "fst (snd (fetchExchangeRate c now from to net)) = c"
    using fresh_cached [of c now "from" to] by (auto simp: fetch_fresh)
next
  assume n: "\<forall>a\<in>set EXCHANGE_RATE_APIS. attempt a from to now net = None"
  show "fst (snd (fetchExchangeRate c now from to net)) = c"
  proof (cases "fresh c now from to")
    case True
    then show ?thesis using fresh_cached [of c now "from" to] by (auto simp: fetch_fresh)
  next
    case False
    then show ?thesis using n by (simp add: fetch_all_fail)
  qed
next
  let ?f = "query_default qfrom ''USD''" and ?t = "query_default qto ''CNY''"
  assume ch: "fst (snd (exchange_rate_handler c now qfrom qto net)) \<noteq> c"
  with handler_cache [of c now qfrom qto net]
  have d: "?f \<noteq> ?t"
    and h: "fst (snd (exchange_rate_handler c now qfrom qto net)) = fst (snd (fetchExchangeRate c now ?f ?t net))"
    by blast+
  from d show "?f \<noteq> ?t" .
  from ch h have "fst (snd (fetchExchangeRate c now ?f ?t net)) \<noteq> c" by simp
  with fetch_cache [of c now ?f ?t net]
  have s: "\<not> fresh c now ?f ?t"
    and w: "\<exists>r reqs. try_apis EXCHANGE_RATE_APIS ?f ?t now net = (Some r, reqs) \<and>
       fst (fetchExchangeRate c now ?f ?t net) = Inr (from_entry r False) \<and>
       fst (snd (fetchExchangeRate c now ?f ?t net)) = c(cacheKey ?f ?t \<mapsto> r)"
    by blast+
  from s show "\<not> fresh c now ?f ?t" .
  from w h show "\<exists>r reqs. try_apis EXCHANGE_RATE_APIS ?f ?t now net = (Some r, reqs) \<and>
           fst (snd (exchange_rate_handler c now qfrom qto net)) = c(cacheKey ?f ?t \<mapsto> r)"
    by auto
qed

theorem cache_frame_witness:
  "query_default (Some ''EUR'') ''USD'' = query_default (Some ''EUR'') ''CNY'' \<and>
   exchange_rate_handler (cached_at 1000) 1500 (Some ''EUR'') (Some ''EUR'') offline =
     (Status200 \<lparr> rate = Fin 1, timestamp = 1500, source = ''direct'', fromCache = False,
                  base = ''EUR'', target = ''EUR'' \<rparr>, cached_at 1000, []) \<and>
   fresh (cached_at 1000) 1500 ''USD'' ''CNY'' \<and>
   fst (snd (fetchExchangeRate (cached_at 1000) 1500 ''USD'' ''CNY'' offline)) = cached_at 1000 \<and>
   list_all (\<lambda>a. attempt a ''USD'' ''CNY'' 1500 offline = None) EXCHANGE_RATE_APIS \<and>
   fst (snd (exchange_rate_handler Map.empty 1000 None None second_provider_up)) \<noteq> Map.empty \<and>
   fst (snd (exchange_rate_handler Map.empty 1000 None None second_provider_up)) =
     [''USD-CNY'' \<mapsto> \<lparr> rate = Fin (71999 / 10000), timestamp = 1000, source = ''open.er-api.com'' \<rparr>]"
proof -
  have i: "query_default (Some ''EUR'') ''USD'' = query_default (Some ''EUR'') ''CNY''"
    by (simp add: query_default_def)
  have f: "fresh (cached_at 1000) 1500 ''USD'' ''CNY''"
    by (simp add: fresh_def cached_at_def cacheKey_def duration_def)
  have n: "\<forall>a\<in>set EXCHANGE_RATE_APIS. attempt a ''USD'' ''CNY'' 1500 offline = None"
    by (rule offline_fails)
  note t = cache_frame [of "Some ''EUR''" "Some ''EUR''" "cached_at 1000" 1500 offline "''USD''" "''CNY''"]
  from t i have 1: "fst (snd (exchange_rate_handler (cached_at 1000) 1500 (Some ''EUR'') (Some ''EUR'') offline)) = cached_at 1000"
    by blast
  have 2: "exchange_rate_handler (cached_at 1000) 1500 (Some ''EUR'') (Some ''EUR'') offline =
     (Status200 \<lparr> rate = Fin 1, timestamp = 1500, source = ''direct'', fromCache = False,
                  base = ''EUR'', target = ''EUR'' \<rparr>, cached_at 1000, [])"
    by (simp add: exchange_rate_handler_def Let_def query_default_def supportedCurrencies_def)
  from t f have 3: "fst (snd (fetchExchangeRate (cached_at 1000) 1500 ''USD'' ''CNY'' offline)) = cached_at 1000"
    by blast
  have 4: "list_all (\<lambda>a. attempt a ''USD'' ''CNY'' 1500 offline = None) EXCHANGE_RATE_APIS"
    using n by (simp add: list_all_iff)
  have 5: "fst (snd (exchange_rate_handler Map.empty 1000 None None second_provider_up)) =
     [''USD-CNY'' \<mapsto> \<lparr> rate = Fin (71999 / 10000), timestamp = 1000, source = ''open.er-api.com'' \<rparr>]"
    by (simp add: exchange_rate_handler_def Let_def query_default_def supportedCurrencies_def run_simps
        second_provider_up_def rates_body_def fixed4_71999)
  have 6: "fst (snd (exchange_rate_handler Map.empty 1000 None None second_provider_up)) \<noteq> Map.empty"
    unfolding 5 by (metis map_upd_nonempty)
  from i 2 f 3 4 5 6 show ?thesis by blast
qed

subsection \<open>Timestamps of successive writes\<close>

text \<open>A call that runs alone is \<^verbatim>\<open>fetchExchangeRate\<close> as embedded above.\<close>

lemma run_to_end_loop:
  "run_to_end c (loop_head from to now cached as) net =
     (case try_apis as from to now net of
        (Some r, reqs) \<Rightarrow> (Inr (from_entry r False), c(cacheKey from to \<mapsto> r))
      | (None, reqs) \<Rightarrow> (fallback cached, c))"
proof (induction as)
  case Nil
  then show ?case by (simp add: loop_head_def)
next
  case (Cons a as)
  show ?case
  proof (cases "attempt a from to now net")
    case None
    then have "fetch_resume c \<lparr> call_from = from, call_to = to, call_now = now, call_cached = cached,
                     call_api = a, call_rest = as \<rparr> (net (url a from to)) =
        (loop_head from to now cached as, c)"
      by (simp add: fetch_resume_def attempt_def try_block_def)
    then show ?thesis using None Cons.IH
      by (simp add: loop_head_def split: prod.splits)
  next
    case (Some r)
    then have "fetch_resume c \<lparr> call_from = from, call_to = to, call_now = now, call_cached = cached,
                     call_api = a, call_rest = as \<rparr> (net (url a from to)) =
        (Settled (Inr (from_entry r False)), c(cacheKey from to \<mapsto> r))"
      by (simp add: fetch_resume_def attempt_def try_block_def)
    then show ?thesis using Some
      by (simp add: loop_head_def)
  qed
qed

lemma run_to_end_fetch:
  "run_to_end c (fetch_start c now from to) net =
     (fst (fetchExchangeRate c now from to net), fst (snd (fetchExchangeRate c now from to net)))"
  by (simp add: fetch_start_def fetchExchangeRate_def fetch_from_providers_def run_to_end_loop
      split: option.splits prod.splits)

text \<open>
  Claim C8, as the specification has it: across any sequence of resolution calls the
  timestamps of successive writes for a key never decrease. It fails when calls overlap.
  A call stamps its entry with the clock reading of line 219, taken when the call began,
  and writes it at line 255, after the \<^verbatim>\<open>await\<close>. Call 1 begins at 1000 and call 2 at
  2000, both for USD-CNY on an empty cache; the request of call 2 settles first, then
  that of call 1: the entry written first carries 2000, the one written next 1000.
\<close>

theorem overlapping_calls_timestamps:
  "map_option timestamp
     (data (run idle [Call 1 1000 ''USD'' ''CNY'', Call 2 2000 ''USD'' ''CNY'',
                      Settle 2 (Resolved (rates_body ''CNY'' (Fin (72 / 10))))]) ''USD-CNY'') = Some 2000 \<and>
   map_option timestamp
     (data (run idle [Call 1 1000 ''USD'' ''CNY'', Call 2 2000 ''USD'' ''CNY'',
                      Settle 2 (Resolved (rates_body ''CNY'' (Fin (72 / 10)))),
                      Settle 1 (Resolved (rates_body ''CNY'' (Fin (71 / 10))))]) ''USD-CNY'') = Some 1000"
  by (simp add: run_def idle_def fetch_start_def fetch_resume_def loop_head_def EXCHANGE_RATE_APIS_def
      after_await_def catch_continue_def parse_rates_def rates_body_def cacheKey_def)

lemma fetch_timestamp:
  assumes "c k = Some e"
  shows "\<exists>e'. fst (snd (fetchExchangeRate c now from to net)) k = Some e' \<and>
           (e' = e \<or> timestamp e + duration \<le> timestamp e')"
proof -
  from fetch_cache [of c now "from" to net] show ?thesis
  proof
    assume "fst (snd (fetchExchangeRate c now from to net)) = c"
    with assms show ?thesis by simp
  next
    assume "\<not> fresh c now from to \<and>
      (\<exists>r reqs. try_apis EXCHANGE_RATE_APIS from to now net = (Some r, reqs) \<and>
         fst (fetchExchangeRate c now from to net) = Inr (from_entry r False) \<and>
         fst (snd (fetchExchangeRate c now from to net)) = c(cacheKey from to \<mapsto> r))"
    then obtain r reqs where s: "\<not> fresh c now from to"
      and t: "try_apis EXCHANGE_RATE_APIS from to now net = (Some r, reqs)"
      and w: "fst (snd (fetchExchangeRate c now from to net)) = c(cacheKey from to \<mapsto> r)"
      by blast
    from t have n: "timestamp r = now" using try_apis_Some_entry by blast
    show ?thesis
    proof (cases "k = cacheKey from to")
      case True
      with assms s have "duration \<le> now - timestamp e" by (simp add: fresh_def)
      with n have "timestamp e + duration \<le> timestamp r" by simp
      with w True show ?thesis by simp
    next
      case False
      with w assms show ?thesis by simp
    qed
  qed
qed

lemma duration_nonneg: "0 \<le> duration"
  by (simp add: duration_def)

lemma run_calls_timestamp:
  "c k = Some e \<Longrightarrow>
     \<exists>e'. run_calls c calls k = Some e' \<and> (e' = e \<or> timestamp e + duration \<le> timestamp e')"
proof (induction calls arbitrary: c e)
  case Nil
  then show ?case by simp
next
  case (Cons x calls)
  obtain now "from" to net where x: "x = (now, from, to, net)" by (cases x)
  let ?c = "fst (snd (fetchExchangeRate c now from to net))"
  from fetch_timestamp [of c k e now "from" to net, OF Cons.prems]
  obtain e1 where e1: "?c k = Some e1" "e1 = e \<or> timestamp e + duration \<le> timestamp e1" by blast
  from Cons.IH [of ?c e1, OF e1(1)]
  obtain e2 where e2: "run_calls ?c calls k = Some e2" "e2 = e1 \<or> timestamp e1 + duration \<le> timestamp e2"
    by blast
  from e1(2) e2(2) duration_nonneg have "e2 = e \<or> timestamp e + duration \<le> timestamp e2" by auto
  with e2(1) x show ?case by simp
qed

text \<open>
  Claim C8, amended: for calls made one after another, each to its end before the next
  begins, the entry cached for a key is never lost, and a later entry for the key is the
  same entry or carries a timestamp at least one window above: timestamps of successive
  writes never decrease. The cache holds at most one entry for a key, and a call leaves
  the cache as it was or replaces the whole entry of its pair by the entry it returns,
  stamped with the clock reading of the call.
\<close>

theorem sequential_calls_timestamps:
  "(c k = Some e \<longrightarrow>
      (\<exists>e'. run_calls c calls k = Some e' \<and> (e' = e \<or> timestamp e + duration \<le> timestamp e') \<and>
         timestamp e \<le> timestamp e'))
   \<and> (fst (snd (fetchExchangeRate c now from to net)) = c \<or>
        (\<exists>r. fst (fetchExchangeRate c now from to net) = Inr (from_entry r False) \<and>
           timestamp r = now \<and>
           fst (snd (fetchExchangeRate c now from to net)) = c(cacheKey from to \<mapsto> r)))"
proof (intro conjI impI)
  assume "c k = Some e"
  from run_calls_timestamp [of c k e calls, OF this]
  obtain e' where e': "run_calls c calls k = Some e'" "e' = e \<or> timestamp e + duration \<le> timestamp e'"
    by blast
  from e'(2) duration_nonneg have "timestamp e \<le> timestamp e'" by auto
  with e' show "\<exists>e'. run_calls c calls k = Some e' \<and> (e' = e \<or> timestamp e + duration \<le> timestamp e') \<and>
         timestamp e \<le> timestamp e'"
    by blast
next
  from fetch_cache [of c now "from" to net]
  show "fst (snd (fetchExchangeRate c now from to net)) = c \<or>
        (\<exists>r. fst (fetchExchangeRate c now from to net) = Inr (from_entry r False) \<and>
           timestamp r = now \<and>
           fst (snd (fetchExchangeRate c now from to net)) = c(cacheKey from to \<mapsto> r))"
    using try_apis_Some_entry by blast
qed

theorem sequential_calls_timestamps_witness:
  "cached_at 1000 ''USD-CNY'' =
     Some \<lparr> rate = Fin (72 / 10), timestamp = 1000, source = ''open.er-api.com'' \<rparr> \<and>
   run_calls (cached_at 1000)
     [(2000, ''USD'', ''CNY'', second_provider_up), (3601000, ''USD'', ''CNY'', second_provider_up),
      (3601500, ''USD'', ''CNY'', offline)] ''USD-CNY'' =
     Some \<lparr> rate = Fin (71999 / 10000), timestamp = 3601000, source = ''open.er-api.com'' \<rparr> \<and>
   (\<exists>e'. run_calls (cached_at 1000)
       [(2000, ''USD'', ''CNY'', second_provider_up), (3601000, ''USD'', ''CNY'', second_provider_up),
        (3601500, ''USD'', ''CNY'', offline)] ''USD-CNY'' = Some e' \<and> 1000 \<le> timestamp e')"
proof -
  let ?e = "\<lparr> rate = Fin (72 / 10), timestamp = 1000, source = ''open.er-api.com'' \<rparr>"
  let ?calls = "[(2000, ''USD'', ''CNY'', second_provider_up), (3601000, ''USD'', ''CNY'', second_provider_up),
      (3601500, ''USD'', ''CNY'', offline)]"
  have k: "cached_at 1000 ''USD-CNY'' = Some ?e" by (simp add: cached_at_def)
  have "\<exists>e'. run_calls (cached_at 1000) ?calls ''USD-CNY'' = Some e' \<and>
          (e' = ?e \<or> timestamp ?e + duration \<le> timestamp e') \<and> timestamp ?e \<le> timestamp e'"
    by (rule sequential_calls_timestamps [of "cached_at 1000" "''USD-CNY''" ?e ?calls 0 "''USD''" "''CNY''" offline,
          THEN conjunct1, THEN mp, OF k])
  then have a: "\<exists>e'. run_calls (cached_at 1000) ?calls ''USD-CNY'' = Some e' \<and> 1000 \<le> timestamp e'"
    by auto
  have b: "run_calls (cached_at 1000) ?calls ''USD-CNY'' =
     Some \<lparr> rate = Fin (71999 / 10000), timestamp = 3601000, source = ''open.er-api.com'' \<rparr>"
    by (simp add: run_simps cached_at_def second_provider_up_def offline_def rates_body_def fixed4_71999)
  from k a b show ?thesis by blast
qed

end
